theory Spec2Isabelle
  imports Main "HOL-Library.Sublist" "HOL-Library.Word"
begin

section \<open>Strings\<close>

text \<open>
  Go strings are byte sequences; they are modelled as \<open>string\<close> (a list of bytes).
  The functions of this section belong to Go's standard library (package \<open>strings\<close>)
  and are written after its documented behaviour.
\<close>

text \<open>
  The UTF-8 encodings of the code points for which \<open>unicode.IsSpace\<close> holds:
  U+0009..U+000D, U+0020, U+0085, U+00A0, U+1680, U+2000..U+200A, U+2028, U+2029,
  U+202F, U+205F and U+3000.
\<close>

definition space_encodings :: "string list" where
  "space_encodings =
     [[CHR 0x09], [CHR 0x0A], [CHR 0x0B], [CHR 0x0C], [CHR 0x0D], [CHR 0x20],
      [CHR 0xC2, CHR 0x85], [CHR 0xC2, CHR 0xA0],
      [CHR 0xE1, CHR 0x9A, CHR 0x80],
      [CHR 0xE2, CHR 0x80, CHR 0x80], [CHR 0xE2, CHR 0x80, CHR 0x81],
      [CHR 0xE2, CHR 0x80, CHR 0x82], [CHR 0xE2, CHR 0x80, CHR 0x83],
      [CHR 0xE2, CHR 0x80, CHR 0x84], [CHR 0xE2, CHR 0x80, CHR 0x85],
      [CHR 0xE2, CHR 0x80, CHR 0x86], [CHR 0xE2, CHR 0x80, CHR 0x87],
      [CHR 0xE2, CHR 0x80, CHR 0x88], [CHR 0xE2, CHR 0x80, CHR 0x89],
      [CHR 0xE2, CHR 0x80, CHR 0x8A],
      [CHR 0xE2, CHR 0x80, CHR 0xA8], [CHR 0xE2, CHR 0x80, CHR 0xA9],
      [CHR 0xE2, CHR 0x80, CHR 0xAF], [CHR 0xE2, CHR 0x81, CHR 0x9F],
      [CHR 0xE3, CHR 0x80, CHR 0x80]]"

text \<open>The number of bytes of the white-space code point a string starts with (0 if none).\<close>

definition leading_space :: "string \<Rightarrow> nat" where
  "leading_space s = (case find (\<lambda>e. prefix e s) space_encodings of
                        None \<Rightarrow> 0 | Some e \<Rightarrow> length e)"

text \<open>The number of bytes of the white-space code point a string ends with (0 if none).\<close>

definition trailing_space :: "string \<Rightarrow> nat" where
  "trailing_space s = (case find (\<lambda>e. suffix e s) space_encodings of
                         None \<Rightarrow> 0 | Some e \<Rightarrow> length e)"

text \<open>\<open>strings.TrimLeftFunc(s, unicode.IsSpace)\<close>.\<close>

function trim_left :: "string \<Rightarrow> string" where
  "trim_left s = (if leading_space s = 0 then s else trim_left (drop (leading_space s) s))"
  by pat_completeness auto
termination
proof (relation "measure length")
  show "wf (measure length)" by simp
next
  fix s :: string
  assume h: "leading_space s \<noteq> 0"
  have "leading_space [] = 0"
    by (simp add: leading_space_def space_encodings_def)
  with h have "s \<noteq> []" by auto
  with h show "(drop (leading_space s) s, s) \<in> measure length" by simp
qed

text \<open>\<open>strings.TrimRightFunc(s, unicode.IsSpace)\<close>.\<close>

function trim_right :: "string \<Rightarrow> string" where
  "trim_right s =
     (if trailing_space s = 0 then s else trim_right (take (length s - trailing_space s) s))"
  by pat_completeness auto
termination
proof (relation "measure length")
  show "wf (measure length)" by simp
next
  fix s :: string
  assume h: "trailing_space s \<noteq> 0"
  have "trailing_space [] = 0"
    by (simp add: trailing_space_def space_encodings_def)
  with h have "s \<noteq> []" by auto
  with h show "(take (length s - trailing_space s) s, s) \<in> measure length" by simp
qed

declare trim_left.simps [simp del] trim_right.simps [simp del]

text \<open>\<open>strings.TrimSpace\<close>: all leading and trailing white space removed.\<close>

definition TrimSpace :: "string \<Rightarrow> string" where
  "TrimSpace s = trim_right (trim_left s)"

text \<open>
  \<open>strings.Replace(s, old, new, -1)\<close>: every non-overlapping instance of \<open>old\<close>,
  found from left to right, is replaced by \<open>new\<close>. The first argument of \<open>replace_from\<close>
  counts the bytes of a matched instance that are still to be skipped. For an empty
  \<open>old\<close> Go inserts \<open>new\<close> before every code point and at the end; no caller in this
  development passes an empty \<open>old\<close>, and the model returns the string unchanged there.
\<close>

fun replace_from :: "nat \<Rightarrow> string \<Rightarrow> string \<Rightarrow> string \<Rightarrow> string" where
  "replace_from k old new [] = []"
| "replace_from (Suc k) old new (c # cs) = replace_from k old new cs"
| "replace_from 0 old new (c # cs) =
     (if prefix old (c # cs) then new @ replace_from (length old - 1) old new cs
      else c # replace_from 0 old new cs)"

definition Replace :: "string \<Rightarrow> string \<Rightarrow> string \<Rightarrow> string" where
  "Replace s old new = (if old = [] then s else replace_from 0 old new s)"

text \<open>\<open>strings.Contains(s, sub)\<close>.\<close>

fun Contains :: "string \<Rightarrow> string \<Rightarrow> bool" where
  "Contains [] sub = (sub = [])"
| "Contains (c # cs) sub = (prefix sub (c # cs) \<or> Contains cs sub)"

section \<open>Helpers of the SDK\<close>

text \<open>
  Modelled from the spec: \<open>strutil.ParseArbitraryStringSlice\<close> (package
  \<open>sdk/helper/strutil\<close>) is called by the plugin but its body is not part of the
  sources at hand. The spec says that a template string is split on the statement
  separator \<open>;\<close>; trimming and the removal of empty fragments are done by the caller.
  The separator string \<open>";"\<close> is represented by its single character.
\<close>

fun ParseArbitraryStringSlice :: "string \<Rightarrow> char \<Rightarrow> string list" where
  "ParseArbitraryStringSlice [] sep = [[]]"
| "ParseArbitraryStringSlice (c # cs) sep =
     (if c = sep then [] # ParseArbitraryStringSlice cs sep
      else (case ParseArbitraryStringSlice cs sep of
              [] \<Rightarrow> [[c]]
            | frag # frags \<Rightarrow> (c # frag) # frags))"

text \<open>The placeholder token of a substitution key: the key between double braces.\<close>

definition placeholder :: "string \<Rightarrow> string" where
  "placeholder k = ''{{'' @ k @ ''}}''"

text \<open>
  Modelled from the spec: \<open>dbutil.QueryHelper\<close> (package \<open>sdk/database/helper/dbutil\<close>)
  is called by the plugin but its body is not part of the sources at hand. The spec says
  that every placeholder token whose key is in the substitution map is replaced by the
  value of the key and that every other token is left as it is. The map is an association
  list, and the keys are substituted one after the other in the order of the list (Go
  fixes no order for the keys of a map).
\<close>

definition QueryHelper :: "string \<Rightarrow> (string \<times> string) list \<Rightarrow> string" where
  "QueryHelper tpl data = foldl (\<lambda>t (k, v). Replace t (placeholder k) v) tpl data"

section \<open>Errors and outcomes\<close>

text \<open>
  The error values the plugin returns or passes on. \<open>MySQLError\<close> is the driver's
  \<open>*mysql.MySQLError\<close> with its \<open>Number\<close> (a \<open>uint16\<close>) and \<open>Message\<close>;
  \<open>DriverError\<close> is any other error value of the driver; \<open>ErrTxDone\<close> is the
  error of \<open>database/sql\<close> for a call on a transaction that is over.
\<close>

datatype error =
    ErrEmptyCreationStatement
  | NoChangeRequested
  | MustProvideUsernameAndPassword
  | FailedToChangePassword error
  | ErrorGeneratingUsername error
  | GenerationError
  | MySQLError "16 word" string
  | DriverError string
  | ErrTxDone

text \<open>
  A call of a Go function returns its value (\<open>Ok\<close>, the error being \<open>nil\<close>), returns a
  non-\<open>nil\<close> error together with the zero value (\<open>Err\<close>), or panics.
\<close>

datatype 'a outcome = is_Ok: Ok 'a | Err error | Panic

section \<open>The backend\<close>

type_synonym query = string

text \<open>The calls the plugin makes on its lock and on \<open>database/sql\<close>, in order.\<close>

datatype event =
    EvLock
  | EvUnlock
  | EvGetConnection
  | EvBeginTx
  | EvPrepare query
  | EvExecStmt query
  | EvExecDirect query
  | EvClose "query option"
  | EvCommit
  | EvRollback

text \<open>
  The observable state: the calls made so far, the statements whose effect is committed,
  and the statements applied inside the open transaction (\<open>None\<close> when no transaction is
  open).
\<close>

record world =
  trace :: "event list"
  durable :: "query list"
  pending :: "query list option"

text \<open>
  The answers of the database as functions of the statements applied so far (as the open
  transaction sees them) and of the query at hand; \<open>None\<close> is the \<open>nil\<close> error.
\<close>

record backend =
  connection :: "error option"
  begin_tx :: "error option"
  prepare :: "query list \<Rightarrow> query \<Rightarrow> error option"
  exec_stmt :: "query list \<Rightarrow> query \<Rightarrow> error option"
  exec_direct :: "query list \<Rightarrow> query \<Rightarrow> error option"
  commit :: "query list \<Rightarrow> error option"

definition visible :: "world \<Rightarrow> query list" where
  "visible w = durable w @ (case pending w of None \<Rightarrow> [] | Some p \<Rightarrow> p)"

definition emit :: "event \<Rightarrow> world \<Rightarrow> world" where
  "emit e w = w\<lparr>trace := trace w @ [e]\<rparr>"

definition apply_query :: "query \<Rightarrow> world \<Rightarrow> world" where
  "apply_query q w = w\<lparr>pending := map_option (\<lambda>p. p @ [q]) (pending w)\<rparr>"

definition Lock :: "world \<Rightarrow> world" where
  "Lock w = emit EvLock w"

definition Unlock :: "world \<Rightarrow> world" where
  "Unlock w = emit EvUnlock w"

text \<open>
  The transaction handle \<open>*sql.Tx\<close>: it is done from the moment \<open>Commit\<close> or
  \<open>Rollback\<close> has been called on it, whatever the call returned.
\<close>

datatype Tx = Live | Done

text \<open>
  \<open>db.BeginTx\<close>: on success a transaction with no statement applied is open and its
  handle is returned (\<open>Inr\<close>); on failure the error is returned (\<open>Inl\<close>).
\<close>

definition BeginTx :: "backend \<Rightarrow> world \<Rightarrow> (error + Tx) \<times> world" where
  "BeginTx be w =
     (case begin_tx be of
        Some err \<Rightarrow> (Inl err, emit EvBeginTx w)
      | None \<Rightarrow> (Inr Live, (emit EvBeginTx w)\<lparr>pending := Some []\<rparr>))"

text \<open>
  \<open>tx.PrepareContext\<close> returns either a \<open>nil\<close> handle with an error (\<open>Inl\<close>) or a
  handle for the query with a \<open>nil\<close> error (\<open>Inr\<close>).
\<close>

definition PrepareContext :: "backend \<Rightarrow> query \<Rightarrow> world \<Rightarrow> (error + query) \<times> world" where
  "PrepareContext be q w =
     (case prepare be (visible w) q of
        Some err \<Rightarrow> (Inl err, emit (EvPrepare q) w)
      | None \<Rightarrow> (Inr q, emit (EvPrepare q) w))"

text \<open>\<open>tx.ExecContext\<close>: the query is run directly inside the transaction.\<close>

definition tx_ExecContext :: "backend \<Rightarrow> query \<Rightarrow> world \<Rightarrow> error option \<times> world" where
  "tx_ExecContext be q w =
     (case exec_direct be (visible w) q of
        Some err \<Rightarrow> (Some err, emit (EvExecDirect q) w)
      | None \<Rightarrow> (None, apply_query q (emit (EvExecDirect q) w)))"

text \<open>\<open>stmt.ExecContext\<close> on the handle of a prepared query.\<close>

definition stmt_ExecContext :: "backend \<Rightarrow> query \<Rightarrow> world \<Rightarrow> error option \<times> world" where
  "stmt_ExecContext be q w =
     (case exec_stmt be (visible w) q of
        Some err \<Rightarrow> (Some err, emit (EvExecStmt q) w)
      | None \<Rightarrow> (None, apply_query q (emit (EvExecStmt q) w)))"

text \<open>
  \<open>stmt.Close\<close>: the method locks a mutex inside the handle, so a call on the \<open>nil\<close>
  handle is a \<open>nil\<close> pointer dereference and panics.
\<close>

definition stmt_Close :: "query option \<Rightarrow> world \<Rightarrow> unit outcome \<times> world" where
  "stmt_Close stmt w =
     (case stmt of
        None \<Rightarrow> (Panic, emit (EvClose None) w)
      | Some q \<Rightarrow> (Ok (), emit (EvClose (Some q)) w))"

text \<open>
  \<open>tx.Commit\<close>: on a handle that is done the call returns \<open>ErrTxDone\<close> and sends
  nothing. Otherwise the handle is marked done and the commit is sent: on success the
  statements of the transaction become durable and the transaction is over; on failure
  nothing becomes durable, and the statements stay with the database as they are, in a
  transaction the plugin has no handle for any more. The error and the handle as the call
  leaves it are returned. (The contexts of the calls and their cancellation are not part
  of the model.)
\<close>

definition Commit :: "backend \<Rightarrow> Tx \<Rightarrow> world \<Rightarrow> (error option \<times> Tx) \<times> world" where
  "Commit be tx w =
     (case tx of
        Done \<Rightarrow> ((Some ErrTxDone, Done), emit EvCommit w)
      | Live \<Rightarrow>
          (case commit be (visible w) of
             Some err \<Rightarrow> ((Some err, Done), emit EvCommit w)
           | None \<Rightarrow> ((None, Done), (emit EvCommit w)\<lparr>durable := visible w, pending := None\<rparr>)))"

text \<open>
  \<open>tx.Rollback\<close>: on a live handle the statements of the open transaction are
  discarded; on a handle that is done (after \<open>Commit\<close>, successful or not) the call
  returns \<open>ErrTxDone\<close> and sends nothing to the database. The plugin ignores what the
  call returns.
\<close>

definition Rollback :: "Tx \<Rightarrow> world \<Rightarrow> world" where
  "Rollback tx w =
     (case tx of
        Done \<Rightarrow> emit EvRollback w
      | Live \<Rightarrow> (emit EvRollback w)\<lparr>pending := None\<rparr>)"

section \<open>The MySQL plugin\<close>

definition defaultMysqlRevocationStmts :: string where
  "defaultMysqlRevocationStmts =
     [CHR 0x0A, CHR 0x09, CHR 0x09]
     @ ''REVOKE ALL PRIVILEGES, GRANT OPTION FROM '{{name}}'@'%'; ''
     @ [CHR 0x0A, CHR 0x09, CHR 0x09]
     @ ''DROP USER '{{name}}'@'%'' @ [CHR 0x27]
     @ [CHR 0x0A, CHR 0x09]"

definition defaultMySQLRotateCredentialsSQL :: string where
  "defaultMySQLRotateCredentialsSQL =
     [CHR 0x0A, CHR 0x09, CHR 0x09]
     @ ''ALTER USER '{{username}}'@'%' IDENTIFIED BY '{{password}}';''
     @ [CHR 0x0A, CHR 0x09]"

text \<open>The length limits: package variables, with the values they are initialised to.\<close>

definition MetadataLen :: nat where
  "MetadataLen = 10"

definition LegacyMetadataLen :: nat where
  "LegacyMetadataLen = 4"

definition UsernameLen :: nat where
  "UsernameLen = 32"

definition LegacyUsernameLen :: nat where
  "LegacyUsernameLen = 16"

text \<open>
  The plugin object: the \<open>legacy\<close> flag and the connection producer, which stands for
  the database behind it.
\<close>

record MySQL =
  legacy :: bool
  producer :: backend

record UsernameMetadata =
  DisplayName :: string
  RoleName :: string

record Statements =
  Commands :: "string list"

text \<open>
  \<open>newdbplugin.NewUserRequest\<close>. The field \<open>nu_Expiration\<close> holds the text that
  \<open>req.Expiration.String()\<close> yields.
\<close>

record NewUserRequest =
  nu_UsernameConfig :: UsernameMetadata
  nu_Statements :: Statements
  nu_Password :: string
  nu_Expiration :: string

record NewUserResponse =
  resp_Username :: string

record DeleteUserRequest =
  du_Username :: string
  du_Statements :: Statements

record ChangePassword =
  NewPassword :: string
  cp_Statements :: Statements

record ChangeExpiration =
  NewExpiration :: string
  ce_Statements :: Statements

text \<open>\<open>newdbplugin.UpdateUserRequest\<close>; \<open>None\<close> is the \<open>nil\<close> pointer.\<close>

record UpdateUserRequest =
  uu_Username :: string
  uu_Password :: "ChangePassword option"
  uu_Expiration :: "ChangeExpiration option"

definition getConnection :: "MySQL \<Rightarrow> world \<Rightarrow> error option \<times> world" where
  "getConnection m w = (connection (producer m), emit EvGetConnection w)"

text \<open>
  What \<open>credsutil.GenerateUsername\<close> draws from outside its arguments: the way names
  are sanitized and the uniqueness suffix of this call.
\<close>

record generator =
  sanitize :: "string \<Rightarrow> string"
  uniqueness :: string

text \<open>
  Modelled from the spec: \<open>credsutil.GenerateUsername\<close> (package
  \<open>sdk/database/helper/credsutil\<close>) is called by the plugin but its body is not part of
  the sources at hand. The spec says that the username combines a sanitized prefix of the
  display name, a sanitized fragment of the role name and a uniqueness suffix, that it is
  cut to the maximum length by shortening the readable parts while the suffix stays whole,
  and that the call fails with a generation error only if the suffix alone does not fit.
  The arguments are those of the options \<open>DisplayName(name, len)\<close>,
  \<open>RoleName(name, len)\<close> and \<open>MaxLength(len)\<close>.
\<close>

definition GenerateUsername ::
  "generator \<Rightarrow> string \<Rightarrow> nat \<Rightarrow> string \<Rightarrow> nat \<Rightarrow> nat \<Rightarrow> error + string" where
  "GenerateUsername g displayName displayNameLen roleName roleNameLen maxLen =
     (if maxLen < length (uniqueness g) then Inl GenerationError
      else
        let budget = maxLen - length (uniqueness g);
            role = take budget (take roleNameLen (sanitize g roleName));
            disp = take (budget - length role) (take displayNameLen (sanitize g displayName))
        in Inr (disp @ role @ uniqueness g))"

definition generateUsername :: "MySQL \<Rightarrow> generator \<Rightarrow> NewUserRequest \<Rightarrow> error + string" where
  "generateUsername m g req =
     (let r = (if legacy m then
                 GenerateUsername g (DisplayName (nu_UsernameConfig req)) LegacyUsernameLen
                   (RoleName (nu_UsernameConfig req)) LegacyMetadataLen LegacyUsernameLen
               else
                 GenerateUsername g (DisplayName (nu_UsernameConfig req)) UsernameLen
                   (RoleName (nu_UsernameConfig req)) MetadataLen UsernameLen)
      in case r of
           Inl err \<Rightarrow> Inl (ErrorGeneratingUsername err)
         | Inr username \<Rightarrow> Inr username)"

text \<open>The test \<open>err.(*stdmysql.MySQLError); ok && e.Number == 1295\<close>.\<close>

fun is_1295 :: "error \<Rightarrow> bool" where
  "is_1295 (MySQLError n msg) = (n = 1295)"
| "is_1295 _ = False"

text \<open>
  The body of the inner loop of \<open>executePreparedStatementsWithMap\<close> for one fragment of
  a template. \<open>Ok ()\<close> stands for going on with the next fragment (by \<open>continue\<close> or by
  reaching the end of the body); \<open>Err\<close> is the \<open>return err\<close> of the body.
\<close>

definition exec_fragment ::
  "backend \<Rightarrow> (string \<times> string) list \<Rightarrow> string \<Rightarrow> world \<Rightarrow> unit outcome \<times> world" where
  "exec_fragment be queryMap fragment w =
     (let query = TrimSpace fragment in
      if length query = 0 then (Ok (), w)
      else
        let query = QueryHelper query queryMap in
        case PrepareContext be query w of
          (Inl err, w1) \<Rightarrow>
            if is_1295 err then
              (case tx_ExecContext be query w1 of
                 (Some err', w2) \<Rightarrow>
                   (case stmt_Close None w2 of
                      (Ok _, w3) \<Rightarrow> (Err err', w3)
                    | (r, w3) \<Rightarrow> (r, w3))
               | (None, w2) \<Rightarrow> (Ok (), w2))
            else (Err err, w1)
        | (Inr stmt, w1) \<Rightarrow>
            (case stmt_ExecContext be stmt w1 of
               (Some err, w2) \<Rightarrow>
                 (case stmt_Close (Some stmt) w2 of
                    (Ok _, w3) \<Rightarrow> (Err err, w3)
                  | (r, w3) \<Rightarrow> (r, w3))
             | (None, w2) \<Rightarrow> stmt_Close (Some stmt) w2))"

text \<open>The inner loop: the fragments of one template, in order, until one returns.\<close>

fun exec_fragments ::
  "backend \<Rightarrow> (string \<times> string) list \<Rightarrow> string list \<Rightarrow> world \<Rightarrow> unit outcome \<times> world" where
  "exec_fragments be queryMap [] w = (Ok (), w)"
| "exec_fragments be queryMap (fragment # rest) w =
     (case exec_fragment be queryMap fragment w of
        (Ok _, w') \<Rightarrow> exec_fragments be queryMap rest w'
      | (r, w') \<Rightarrow> (r, w'))"

text \<open>The outer loop: the templates, in order.\<close>

fun exec_statements ::
  "backend \<Rightarrow> (string \<times> string) list \<Rightarrow> string list \<Rightarrow> world \<Rightarrow> unit outcome \<times> world" where
  "exec_statements be queryMap [] w = (Ok (), w)"
| "exec_statements be queryMap (stmt # rest) w =
     (case exec_fragments be queryMap (ParseArbitraryStringSlice stmt CHR '';'') w of
        (Ok _, w') \<Rightarrow> exec_statements be queryMap rest w'
      | (r, w') \<Rightarrow> (r, w'))"

text \<open>
  \<open>executePreparedStatementsWithMap\<close>. The deferred calls run on every way out, a
  panic included: first the rollback, on the handle as it is by then, then the release of
  the lock.
\<close>

definition executePreparedStatementsWithMap ::
  "MySQL \<Rightarrow> string list \<Rightarrow> (string \<times> string) list \<Rightarrow> world \<Rightarrow> unit outcome \<times> world" where
  "executePreparedStatementsWithMap m statements queryMap w =
     (case getConnection m (Lock w) of
        (Some err, w1) \<Rightarrow> (Err err, Unlock w1)
      | (None, w1) \<Rightarrow>
          (case BeginTx (producer m) w1 of
             (Inl err, w2) \<Rightarrow> (Err err, Unlock w2)
           | (Inr tx, w2) \<Rightarrow>
               (case exec_statements (producer m) queryMap statements w2 of
                  (Ok _, w3) \<Rightarrow>
                    (case Commit (producer m) tx w3 of
                       ((Some err, tx'), w4) \<Rightarrow> (Err err, Unlock (Rollback tx' w4))
                     | ((None, tx'), w4) \<Rightarrow> (Ok (), Unlock (Rollback tx' w4)))
                | (r, w3) \<Rightarrow> (r, Unlock (Rollback tx w3)))))"

definition NewUser ::
  "MySQL \<Rightarrow> generator \<Rightarrow> NewUserRequest \<Rightarrow> world \<Rightarrow> NewUserResponse outcome \<times> world" where
  "NewUser m g req w =
     (if length (Commands (nu_Statements req)) = 0 then (Err ErrEmptyCreationStatement, w)
      else
        case generateUsername m g req of
          Inl err \<Rightarrow> (Err err, w)
        | Inr username \<Rightarrow>
            let password = nu_Password req;
                expirationStr = nu_Expiration req;
                queryMap = [(''name'', username), (''username'', username),
                            (''password'', password), (''expiration'', expirationStr)]
            in case executePreparedStatementsWithMap m (Commands (nu_Statements req)) queryMap w of
                 (Ok _, w') \<Rightarrow> (Ok \<lparr>resp_Username = username\<rparr>, w')
               | (Err err, w') \<Rightarrow> (Err err, w')
               | (Panic, w') \<Rightarrow> (Panic, w'))"

definition changeUserPassword ::
  "MySQL \<Rightarrow> string \<Rightarrow> string \<Rightarrow> string list \<Rightarrow> world \<Rightarrow> unit outcome \<times> world" where
  "changeUserPassword m username password rotateStatements w =
     (if username = [] \<or> password = [] then (Err MustProvideUsernameAndPassword, w)
      else
        let rotateStatements =
              (if length rotateStatements = 0 then [defaultMySQLRotateCredentialsSQL]
               else rotateStatements);
            queryMap = [(''name'', username), (''username'', username),
                        (''password'', password)]
        in executePreparedStatementsWithMap m rotateStatements queryMap w)"

definition UpdateUser :: "MySQL \<Rightarrow> UpdateUserRequest \<Rightarrow> world \<Rightarrow> unit outcome \<times> world" where
  "UpdateUser m req w =
     (if uu_Password req = None \<and> uu_Expiration req = None then (Err NoChangeRequested, w)
      else
        case uu_Password req of
          Some pw \<Rightarrow>
            (case changeUserPassword m (uu_Username req) (NewPassword pw)
                    (Commands (cp_Statements pw)) w of
               (Err err, w') \<Rightarrow> (Err (FailedToChangePassword err), w')
             | (r, w') \<Rightarrow> (r, w'))
        | None \<Rightarrow> (Ok (), w))"

text \<open>
  The body of the inner loop of \<open>DeleteUser\<close> for one fragment: no statement is
  prepared, and only the two placeholders of the user's name are replaced.
\<close>

definition revoke_fragment :: "backend \<Rightarrow> string \<Rightarrow> string \<Rightarrow> world \<Rightarrow> unit outcome \<times> world" where
  "revoke_fragment be username fragment w =
     (let query = TrimSpace fragment in
      if length query = 0 then (Ok (), w)
      else
        let query = Replace query ''{{name}}'' username;
            query = Replace query ''{{username}}'' username
        in case tx_ExecContext be query w of
             (Some err, w1) \<Rightarrow> (Err err, w1)
           | (None, w1) \<Rightarrow> (Ok (), w1))"

fun revoke_fragments ::
  "backend \<Rightarrow> string \<Rightarrow> string list \<Rightarrow> world \<Rightarrow> unit outcome \<times> world" where
  "revoke_fragments be username [] w = (Ok (), w)"
| "revoke_fragments be username (fragment # rest) w =
     (case revoke_fragment be username fragment w of
        (Ok _, w') \<Rightarrow> revoke_fragments be username rest w'
      | (r, w') \<Rightarrow> (r, w'))"

fun revoke_statements ::
  "backend \<Rightarrow> string \<Rightarrow> string list \<Rightarrow> world \<Rightarrow> unit outcome \<times> world" where
  "revoke_statements be username [] w = (Ok (), w)"
| "revoke_statements be username (stmt # rest) w =
     (case revoke_fragments be username (ParseArbitraryStringSlice stmt CHR '';'') w of
        (Ok _, w') \<Rightarrow> revoke_statements be username rest w'
      | (r, w') \<Rightarrow> (r, w'))"

definition DeleteUser :: "MySQL \<Rightarrow> DeleteUserRequest \<Rightarrow> world \<Rightarrow> unit outcome \<times> world" where
  "DeleteUser m req w =
     (case getConnection m (Lock w) of
        (Some err, w1) \<Rightarrow> (Err err, Unlock w1)
      | (None, w1) \<Rightarrow>
          let revocationStmts =
                (if length (Commands (du_Statements req)) = 0 then [defaultMysqlRevocationStmts]
                 else Commands (du_Statements req))
          in case BeginTx (producer m) w1 of
               (Inl err, w2) \<Rightarrow> (Err err, Unlock w2)
             | (Inr tx, w2) \<Rightarrow>
                 (case revoke_statements (producer m) (du_Username req) revocationStmts w2 of
                    (Ok _, w3) \<Rightarrow>
                      (case Commit (producer m) tx w3 of
                         ((Some err, tx'), w4) \<Rightarrow> (Err err, Unlock (Rollback tx' w4))
                       | ((None, tx'), w4) \<Rightarrow> (Ok (), Unlock (Rollback tx' w4)))
                  | (r, w3) \<Rightarrow> (r, Unlock (Rollback tx w3))))"

section \<open>The rendered statement sequence\<close>

text \<open>
  The statement renderer as the specification words it: every template is split on
  \<open>;\<close>, every fragment is trimmed, the empty fragments are dropped, and the placeholders
  of the remaining ones are substituted.
\<close>

definition Render :: "(string \<Rightarrow> string) \<Rightarrow> string list \<Rightarrow> query list" where
  "Render subst templates =
     concat (map (\<lambda>t. map subst (filter (\<lambda>q. q \<noteq> [])
                                  (map TrimSpace (ParseArbitraryStringSlice t CHR '';''))))
                 templates)"







text \<open>The substitution of \<open>DeleteUser\<close>.\<close>

definition revoke_subst :: "string \<Rightarrow> string \<Rightarrow> string" where
  "revoke_subst username q = Replace (Replace q ''{{name}}'' username) ''{{username}}'' username"

text \<open>
  Running one rendered statement by prepare and execute, with the direct execution as
  the way out for error 1295.
\<close>

definition run_prepared :: "backend \<Rightarrow> query \<Rightarrow> world \<Rightarrow> unit outcome \<times> world" where
  "run_prepared be q w =
     (case prepare be (visible w) q of
        None \<Rightarrow>
          (case exec_stmt be (visible w) q of
             None \<Rightarrow> (Ok (), emit (EvClose (Some q)) (apply_query q (emit (EvExecStmt q) (emit (EvPrepare q) w))))
           | Some err \<Rightarrow> (Err err, emit (EvClose (Some q)) (emit (EvExecStmt q) (emit (EvPrepare q) w))))
      | Some err \<Rightarrow>
          if is_1295 err then
            (case exec_direct be (visible w) q of
               None \<Rightarrow> (Ok (), apply_query q (emit (EvExecDirect q) (emit (EvPrepare q) w)))
             | Some err' \<Rightarrow> (Panic, emit (EvClose None) (emit (EvExecDirect q) (emit (EvPrepare q) w))))
          else (Err err, emit (EvPrepare q) w))"

text \<open>Running one rendered statement directly.\<close>

definition run_direct :: "backend \<Rightarrow> query \<Rightarrow> world \<Rightarrow> unit outcome \<times> world" where
  "run_direct be q w =
     (case exec_direct be (visible w) q of
        None \<Rightarrow> (Ok (), apply_query q (emit (EvExecDirect q) w))
      | Some err \<Rightarrow> (Err err, emit (EvExecDirect q) w))"

text \<open>Running a sequence of rendered statements up to the first one that does not succeed.\<close>

fun run_all ::
  "(query \<Rightarrow> world \<Rightarrow> unit outcome \<times> world) \<Rightarrow> query list \<Rightarrow> world \<Rightarrow> unit outcome \<times> world" where
  "run_all step [] w = (Ok (), w)"
| "run_all step (q # qs) w =
     (case step q w of
        (Ok _, w') \<Rightarrow> run_all step qs w'
      | (r, w') \<Rightarrow> (r, w'))"

text \<open>
  A rendered statement succeeds under prepare and execute when it is prepared and executed
  without error, or when the prepare fails with error 1295 and the direct execution
  succeeds. The first argument of the answers is the list of statements applied so far.
\<close>

definition prepared_ok :: "backend \<Rightarrow> query list \<Rightarrow> query \<Rightarrow> bool" where
  "prepared_ok be applied q =
     (case prepare be applied q of
        None \<Rightarrow> exec_stmt be applied q = None
      | Some err \<Rightarrow> is_1295 err \<and> exec_direct be applied q = None)"

definition direct_ok :: "backend \<Rightarrow> query list \<Rightarrow> query \<Rightarrow> bool" where
  "direct_ok be applied q = (exec_direct be applied q = None)"

text \<open>Every statement of a sequence succeeds, each after the ones before it.\<close>

fun all_succeed :: "(query list \<Rightarrow> query \<Rightarrow> bool) \<Rightarrow> query list \<Rightarrow> query list \<Rightarrow> bool" where
  "all_succeed ok applied [] = True"
| "all_succeed ok applied (q # qs) = (ok applied q \<and> all_succeed ok (applied @ [q]) qs)"

text \<open>The calls made during an operation that started in \<open>w\<close> and ended in \<open>w'\<close>.\<close>

definition calls :: "world \<Rightarrow> world \<Rightarrow> event list" where
  "calls w w' = drop (length (trace w)) (trace w')"

text \<open>
  What atomicity asks of an operation that runs the statements \<open>qs\<close> in a transaction of
  its own, with \<open>rw\<close> its outcome and final state. The rollback is the last call before
  the lock is released, and the commit is called if and only if every statement succeeded.
  If a statement does not succeed, the operation does not succeed, nothing is durable and
  the transaction is rolled back: no statement is left pending. If all statements succeed
  and the commit succeeds, the operation succeeds, all statements are durable and none is
  pending. If all statements succeed and the commit fails, the operation does not succeed
  and nothing is durable; the plugin's handle is done, so its rollback sends nothing, and
  the whole sequence stays pending with the database.
\<close>

definition atomic_call ::
  "backend \<Rightarrow> (query list \<Rightarrow> query \<Rightarrow> bool) \<Rightarrow> world \<Rightarrow> 'a outcome \<times> world \<Rightarrow> query list \<Rightarrow> bool" where
  "atomic_call be ok w rw qs =
     (suffix [EvRollback, EvUnlock] (trace (snd rw)) \<and>
      (EvCommit \<in> set (calls w (snd rw))) = all_succeed ok (durable w) qs \<and>
      (if all_succeed ok (durable w) qs
       then (case commit be (durable w @ qs) of
               None \<Rightarrow>
                 is_Ok (fst rw) \<and> durable (snd rw) = durable w @ qs \<and> pending (snd rw) = None
             | Some err \<Rightarrow>
                 \<not> is_Ok (fst rw) \<and> durable (snd rw) = durable w \<and> pending (snd rw) = Some qs)
       else \<not> is_Ok (fst rw) \<and> durable (snd rw) = durable w \<and> pending (snd rw) = None))"

text \<open>
  The way out of an operation once its loop over the statements is over: the commit after a
  loop that ran to its end, then the deferred rollback (on the handle the commit has left
  done, or on the live handle when no commit was called) and the release of the lock.
\<close>

definition finish :: "backend \<Rightarrow> unit outcome \<times> world \<Rightarrow> unit outcome \<times> world" where
  "finish be rw =
     (case rw of
        (Ok _, w3) \<Rightarrow>
          (case Commit be Live w3 of
             ((Some err, tx'), w4) \<Rightarrow> (Err err, Unlock (Rollback tx' w4))
           | ((None, tx'), w4) \<Rightarrow> (Ok (), Unlock (Rollback tx' w4)))
      | (r, w3) \<Rightarrow> (r, Unlock (Rollback Live w3)))"

text \<open>
  The state in which the loop over the statements starts: the lock is taken, the
  connection is there and the transaction is open.
\<close>

definition opened :: "world \<Rightarrow> world" where
  "opened w = (emit EvBeginTx (emit EvGetConnection (emit EvLock w)))\<lparr>pending := Some []\<rparr>"

text \<open>
  What the run of one statement has to satisfy: it changes nothing durable, it adds calls
  other than the commit, it succeeds exactly when the database accepts the statement, and
  it adds the statement to the open transaction exactly when it succeeds.
\<close>

definition step_ok ::
  "(query list \<Rightarrow> query \<Rightarrow> bool) \<Rightarrow> (query \<Rightarrow> world \<Rightarrow> unit outcome \<times> world) \<Rightarrow> bool" where
  "step_ok ok step =
     (\<forall>q w. durable (snd (step q w)) = durable w
       \<and> (\<exists>tr. trace (snd (step q w)) = trace w @ tr \<and> EvCommit \<notin> set tr)
       \<and> is_Ok (fst (step q w)) = ok (visible w) q
       \<and> pending (snd (step q w)) =
           (if is_Ok (fst (step q w)) then map_option (\<lambda>p. p @ [q]) (pending w)
            else pending w))"

text \<open>The substitution maps that \<open>NewUser\<close> and \<open>changeUserPassword\<close> build.\<close>

definition NewUser_queryMap :: "string \<Rightarrow> NewUserRequest \<Rightarrow> (string \<times> string) list" where
  "NewUser_queryMap username req = [(''name'', username), (''username'', username),
                            (''password'', nu_Password req), (''expiration'', nu_Expiration req)]"

definition rotate_queryMap :: "string \<Rightarrow> string \<Rightarrow> (string \<times> string) list" where
  "rotate_queryMap username password = [(''name'', username), (''username'', username),
                        (''password'', password)]"





section \<open>Sample inputs\<close>

definition idle :: world where
  "idle = \<lparr>trace = [], durable = [], pending = None\<rparr>"

text \<open>A database that accepts every call.\<close>

definition accepting :: backend where
  "accepting = \<lparr>connection = None, begin_tx = None,
                 prepare = (\<lambda>applied q. None), exec_stmt = (\<lambda>applied q. None),
                 exec_direct = (\<lambda>applied q. None), commit = (\<lambda>applied. None)\<rparr>"

definition sample_plugin :: MySQL where
  "sample_plugin = \<lparr>legacy = False, producer = accepting\<rparr>"

definition sample_generator :: generator where
  "sample_generator = \<lparr>sanitize = (\<lambda>s. s), uniqueness = ''k3x9''\<rparr>"

definition sample_new_user :: NewUserRequest where
  "sample_new_user =
     \<lparr>nu_UsernameConfig = \<lparr>DisplayName = ''token'', RoleName = ''app''\<rparr>,
      nu_Statements = \<lparr>Commands =
        [''CREATE USER '{{name}}'@'%' IDENTIFIED BY '{{password}}'; GRANT SELECT ON *.* TO '{{name}}'@'%';'']\<rparr>,
      nu_Password = ''p1'',
      nu_Expiration = ''2030-01-01 00:00:00 +0000 UTC''\<rparr>"

definition sample_update :: UpdateUserRequest where
  "sample_update =
     \<lparr>uu_Username = ''u1'',
      uu_Password = Some \<lparr>NewPassword = ''p1'', cp_Statements = \<lparr>Commands = []\<rparr>\<rparr>,
      uu_Expiration = None\<rparr>"

definition sample_delete :: DeleteUserRequest where
  "sample_delete = \<lparr>du_Username = ''u1'', du_Statements = \<lparr>Commands = []\<rparr>\<rparr>"




text \<open>A database that accepts every statement and rejects the commit.\<close>

definition failing_commit :: "error \<Rightarrow> backend" where
  "failing_commit err = \<lparr>connection = None, begin_tx = None,
       prepare = (\<lambda>applied q. None),
       exec_stmt = (\<lambda>applied q. None),
       exec_direct = (\<lambda>applied q. None),
       commit = (\<lambda>applied. Some err)\<rparr>"

text \<open>A database that rejects every prepare with error 1295 and every direct execution.\<close>

definition broken_fallback :: backend where
  "broken_fallback = \<lparr>connection = None, begin_tx = None,
       prepare = (\<lambda>applied q. Some (MySQLError 1295 ''This command is not supported in the prepared statement protocol yet'')),
       exec_stmt = (\<lambda>applied q. None),
       exec_direct = (\<lambda>applied q. Some (MySQLError 1396 ''Operation CREATE USER failed'')),
       commit = (\<lambda>applied. None)\<rparr>"


text \<open>A request whose templates hold no statement.\<close>

definition blank_new_user :: NewUserRequest where
  "blank_new_user = sample_new_user\<lparr>nu_Statements := \<lparr>Commands = ['' ; '', [CHR 0x0A, CHR 0x09]]\<rparr>\<rparr>"

text \<open>
  The two statements of the default revocation template, and what they become for a
  user name.
\<close>

definition revoke_template :: string where
  "revoke_template = ''REVOKE ALL PRIVILEGES, GRANT OPTION FROM '{{name}}'@'%'' @ [CHR 0x27]"

definition drop_template :: string where
  "drop_template = ''DROP USER '{{name}}'@'%'' @ [CHR 0x27]"

definition revoke_of :: "string \<Rightarrow> query" where
  "revoke_of u = ''REVOKE ALL PRIVILEGES, GRANT OPTION FROM '' @ [CHR 0x27] @ u @ [CHR 0x27] @ ''@'%'' @ [CHR 0x27]"

definition drop_of :: "string \<Rightarrow> query" where
  "drop_of u = ''DROP USER '' @ [CHR 0x27] @ u @ [CHR 0x27] @ ''@'%'' @ [CHR 0x27]"

section \<open>The loops as runs of the rendered sequence\<close>

lemma visible_emit [simp]: "visible (emit e w) = visible w"
  by (simp add: visible_def emit_def)

lemma exec_fragment_empty: "TrimSpace f = [] \<Longrightarrow> exec_fragment be qm f w = (Ok (), w)"
  by (simp add: exec_fragment_def)

lemma exec_fragment_run:
  "TrimSpace f \<noteq> [] \<Longrightarrow>
   exec_fragment be qm f w = run_prepared be (QueryHelper (TrimSpace f) qm) w"
  by (simp add: exec_fragment_def run_prepared_def PrepareContext_def tx_ExecContext_def
      stmt_ExecContext_def stmt_Close_def Let_def split: option.splits)

lemma exec_fragments_run:
  "exec_fragments be qm fs w =
   run_all (run_prepared be)
     (map (\<lambda>q. QueryHelper q qm) (filter (\<lambda>q. q \<noteq> []) (map TrimSpace fs))) w"
proof (induction fs arbitrary: w)
  case Nil
  show ?case by simp
next
  case (Cons f fs)
  show ?case
  proof (cases "TrimSpace f = []")
    case True
    then show ?thesis using Cons by (simp add: exec_fragment_empty)
  next
    case False
    then show ?thesis using Cons by (simp add: exec_fragment_run split: prod.splits outcome.splits)
  qed
qed

lemma run_all_append:
  "run_all step (xs @ ys) w =
   (case run_all step xs w of (Ok _, w') \<Rightarrow> run_all step ys w' | (r, w') \<Rightarrow> (r, w'))"
  by (induction xs arbitrary: w) (auto split: prod.splits outcome.splits)

lemma exec_statements_run:
  "exec_statements be qm stmts w =
   run_all (run_prepared be) (Render (\<lambda>q. QueryHelper q qm) stmts) w"
proof (induction stmts arbitrary: w)
  case Nil
  show ?case by (simp add: Render_def)
next
  case (Cons t ts)
  have "Render (\<lambda>q. QueryHelper q qm) (t # ts) =
        Render (\<lambda>q. QueryHelper q qm) [t] @ Render (\<lambda>q. QueryHelper q qm) ts"
    by (simp add: Render_def)
  then show ?case using Cons
    by (simp add: run_all_append exec_fragments_run Render_def split: prod.splits outcome.splits)
qed

lemma durable_emit [simp]: "durable (emit e w) = durable w"
  by (simp add: emit_def)

lemma pending_emit [simp]: "pending (emit e w) = pending w"
  by (simp add: emit_def)

lemma trace_emit [simp]: "trace (emit e w) = trace w @ [e]"
  by (simp add: emit_def)

lemma durable_apply_query [simp]: "durable (apply_query q w) = durable w"
  by (simp add: apply_query_def)

lemma trace_apply_query [simp]: "trace (apply_query q w) = trace w"
  by (simp add: apply_query_def)

lemma pending_apply_query [simp]: "pending (apply_query q w) = map_option (\<lambda>p. p @ [q]) (pending w)"
  by (simp add: apply_query_def)

lemma visible_open: "pending w = Some p \<Longrightarrow> visible w = durable w @ p"
  by (simp add: visible_def)

lemma step_ok_prepared: "step_ok (prepared_ok be) (run_prepared be)"
  unfolding step_ok_def
  by (auto simp: run_prepared_def prepared_ok_def split: option.splits)

lemma step_ok_direct: "step_ok (direct_ok be) (run_direct be)"
  unfolding step_ok_def
  by (auto simp: run_direct_def direct_ok_def split: option.splits)

lemma run_all_spec:
  assumes "step_ok ok step" and "pending w = Some p"
  shows "durable (snd (run_all step qs w)) = durable w
       \<and> (\<exists>tr. trace (snd (run_all step qs w)) = trace w @ tr \<and> EvCommit \<notin> set tr)
       \<and> is_Ok (fst (run_all step qs w)) = all_succeed ok (durable w @ p) qs
       \<and> (\<exists>p'. pending (snd (run_all step qs w)) = Some p')
       \<and> (is_Ok (fst (run_all step qs w)) \<longrightarrow> pending (snd (run_all step qs w)) = Some (p @ qs))"
  using assms(2)
proof (induction qs arbitrary: w p)
  case Nil
  then show ?case by simp
next
  case (Cons q qs)
  obtain r w' where st: "step q w = (r, w')" by (cases "step q w")
  from assms(1) have s: "durable (snd (step q w)) = durable w"
      "\<exists>tr. trace (snd (step q w)) = trace w @ tr \<and> EvCommit \<notin> set tr"
      "is_Ok (fst (step q w)) = ok (visible w) q"
      "pending (snd (step q w)) = (if is_Ok (fst (step q w)) then map_option (\<lambda>p. p @ [q]) (pending w) else pending w)"
    unfolding step_ok_def by blast+
  show ?case
  proof (cases r)
    case (Ok u)
    with st s Cons.prems have p': "pending w' = Some (p @ [q])" and d: "durable w' = durable w"
      and okq: "ok (durable w @ p) q" by (simp_all add: visible_open)
    from st s(2) obtain tr where tr: "trace w' = trace w @ tr" "EvCommit \<notin> set tr" by auto
    from Cons.IH[OF p'] d tr st Ok okq show ?thesis by auto
  next
    case (Err e)
    with st s Cons.prems show ?thesis by (auto simp: visible_open)
  next
    case Panic
    with st s Cons.prems show ?thesis by (auto simp: visible_open)
  qed
qed

lemma exec_as_run:
  assumes "connection (producer m) = None" and "begin_tx (producer m) = None"
  shows "executePreparedStatementsWithMap m stmts qm w =
         finish (producer m) (run_all (run_prepared (producer m)) (Render (\<lambda>q. QueryHelper q qm) stmts) (opened w))"
  using assms
  by (simp add: executePreparedStatementsWithMap_def getConnection_def Lock_def BeginTx_def
        exec_statements_run finish_def opened_def split: prod.splits outcome.splits option.splits)

lemma finish_atomic:
  assumes st: "step_ok ok step"
  shows "atomic_call be ok w (finish be (run_all step qs (opened w))) qs"
proof -
  let ?w2 = "opened w"
  have p2: "pending ?w2 = Some []" by (simp add: opened_def)
  have d2: "durable ?w2 = durable w" by (simp add: opened_def)
  have t2: "trace ?w2 = trace w @ [EvLock, EvGetConnection, EvBeginTx]" by (simp add: opened_def)
  obtain r w3 where run: "run_all step qs ?w2 = (r, w3)" by (cases "run_all step qs ?w2")
  from run_all_spec[OF st p2, of qs] run d2
  have d3: "durable w3 = durable w"
    and ok3: "is_Ok r = all_succeed ok (durable w) qs"
    and p3: "\<exists>p'. pending w3 = Some p'"
    and p3ok: "is_Ok r \<longrightarrow> pending w3 = Some qs"
    and t3: "\<exists>tr. trace w3 = trace ?w2 @ tr \<and> EvCommit \<notin> set tr"
    by simp_all
  from t3 t2 obtain tr where tr: "trace w3 = trace w @ [EvLock, EvGetConnection, EvBeginTx] @ tr" "EvCommit \<notin> set tr"
    by auto
  show ?thesis
  proof (cases r)
    case (Ok u)
    with p3ok have p3': "pending w3 = Some qs" by simp
    then have v3: "visible w3 = durable w @ qs" using d3 by (simp add: visible_def)
    from Ok ok3 have all: "all_succeed ok (durable w) qs" by simp
    show ?thesis
    proof (cases "commit be (durable w @ qs)")
      case None
      then show ?thesis using Ok run v3 all tr d3
        by (simp add: atomic_call_def finish_def Commit_def Rollback_def Unlock_def calls_def suffix_def)
    next
      case (Some e)
      then show ?thesis using Ok run v3 all tr d3 p3'
        by (simp add: atomic_call_def finish_def Commit_def Rollback_def Unlock_def calls_def suffix_def)
    qed
  next
    case (Err e)
    then show ?thesis using run ok3 tr d3
      by (simp add: atomic_call_def finish_def Rollback_def Unlock_def calls_def suffix_def)
  next
    case Panic
    then show ?thesis using run ok3 tr d3
      by (simp add: atomic_call_def finish_def Rollback_def Unlock_def calls_def suffix_def)
  qed
qed

lemma atomic_call_cong:
  "is_Ok (fst rw') = is_Ok (fst rw) \<Longrightarrow> snd rw' = snd rw \<Longrightarrow>
   atomic_call be ok w rw' qs = atomic_call be ok w rw qs"
  by (simp add: atomic_call_def split: option.splits)

lemma revoke_fragment_empty: "TrimSpace f = [] \<Longrightarrow> revoke_fragment be u f w = (Ok (), w)"
  by (simp add: revoke_fragment_def)

lemma revoke_fragment_run:
  "TrimSpace f \<noteq> [] \<Longrightarrow> revoke_fragment be u f w = run_direct be (revoke_subst u (TrimSpace f)) w"
  by (simp add: revoke_fragment_def run_direct_def tx_ExecContext_def revoke_subst_def Let_def
      split: option.splits)

lemma revoke_fragments_run:
  "revoke_fragments be u fs w =
   run_all (run_direct be) (map (revoke_subst u) (filter (\<lambda>q. q \<noteq> []) (map TrimSpace fs))) w"
proof (induction fs arbitrary: w)
  case Nil
  show ?case by simp
next
  case (Cons f fs)
  show ?case
  proof (cases "TrimSpace f = []")
    case True
    then show ?thesis using Cons by (simp add: revoke_fragment_empty)
  next
    case False
    then show ?thesis using Cons
      by (simp add: revoke_fragment_run split: prod.splits outcome.splits)
  qed
qed

lemma revoke_statements_run:
  "revoke_statements be u stmts w = run_all (run_direct be) (Render (revoke_subst u) stmts) w"
proof (induction stmts arbitrary: w)
  case Nil
  show ?case by (simp add: Render_def)
next
  case (Cons t ts)
  have "Render (revoke_subst u) (t # ts) = Render (revoke_subst u) [t] @ Render (revoke_subst u) ts"
    by (simp add: Render_def)
  then show ?case using Cons
    by (simp add: run_all_append revoke_fragments_run Render_def split: prod.splits outcome.splits)
qed

lemma delete_as_run:
  assumes "connection (producer m) = None" and "begin_tx (producer m) = None"
  shows "DeleteUser m req w =
         finish (producer m) (run_all (run_direct (producer m))
           (Render (revoke_subst (du_Username req))
              (if Commands (du_Statements req) = [] then [defaultMysqlRevocationStmts]
               else Commands (du_Statements req)))
           (opened w))"
  using assms
  by (simp add: DeleteUser_def getConnection_def Lock_def BeginTx_def
        revoke_statements_run finish_def opened_def split: prod.splits outcome.splits option.splits)

lemma NewUser_as_exec:
  assumes h: "Commands (nu_Statements nreq) \<noteq> []" "generateUsername m g nreq = Inr username"
  shows "is_Ok (fst (NewUser m g nreq w)) =
         is_Ok (fst (executePreparedStatementsWithMap m (Commands (nu_Statements nreq))
                       (NewUser_queryMap username nreq) w))
       \<and> snd (NewUser m g nreq w) =
         snd (executePreparedStatementsWithMap m (Commands (nu_Statements nreq))
                (NewUser_queryMap username nreq) w)"
proof -
  let ?ex = "executePreparedStatementsWithMap m (Commands (nu_Statements nreq))
               (NewUser_queryMap username nreq) w"
  obtain r w' where e: "?ex = (r, w')" by (cases ?ex)
  have "NewUser m g nreq w =
        (case r of Ok _ \<Rightarrow> (Ok \<lparr>resp_Username = username\<rparr>, w')
         | Err err \<Rightarrow> (Err err, w') | Panic \<Rightarrow> (Panic, w'))"
    using h e unfolding NewUser_def NewUser_queryMap_def Let_def by simp
  then show ?thesis using e by (cases r) simp_all
qed



lemma UpdateUser_as_exec:
  assumes h: "uu_Password ureq = Some pw" "uu_Username ureq \<noteq> []" "NewPassword pw \<noteq> []"
  shows "is_Ok (fst (UpdateUser m ureq w)) = is_Ok (fst (executePreparedStatementsWithMap m
            (if Commands (cp_Statements pw) = [] then [defaultMySQLRotateCredentialsSQL]
             else Commands (cp_Statements pw))
            (rotate_queryMap (uu_Username ureq) (NewPassword pw)) w))
       \<and> snd (UpdateUser m ureq w) = snd (executePreparedStatementsWithMap m
            (if Commands (cp_Statements pw) = [] then [defaultMySQLRotateCredentialsSQL]
             else Commands (cp_Statements pw))
            (rotate_queryMap (uu_Username ureq) (NewPassword pw)) w)"
proof -
  let ?ex = "executePreparedStatementsWithMap m
            (if Commands (cp_Statements pw) = [] then [defaultMySQLRotateCredentialsSQL]
             else Commands (cp_Statements pw))
            (rotate_queryMap (uu_Username ureq) (NewPassword pw)) w"
  obtain r w' where e: "?ex = (r, w')" by (cases ?ex)
  have c: "changeUserPassword m (uu_Username ureq) (NewPassword pw) (Commands (cp_Statements pw)) w = (r, w')"
    using h e unfolding changeUserPassword_def rotate_queryMap_def Let_def by simp
  have "UpdateUser m ureq w = (case r of Err err \<Rightarrow> (Err (FailedToChangePassword err), w') | _ \<Rightarrow> (r, w'))"
    using h c unfolding UpdateUser_def by (simp split: outcome.splits)
  then show ?thesis using e by (cases r) simp_all
qed

section \<open>The first statement that fails\<close>














section \<open>Replacing placeholders\<close>

lemma replace_from_skip: "replace_from (length xs) old new (xs @ b) = replace_from 0 old new b"
  by (induction xs) simp_all

lemma replace_from_disjoint:
  "old \<noteq> [] \<Longrightarrow> set old \<inter> set b = {} \<Longrightarrow> replace_from 0 old new b = b"
proof (induction b)
  case Nil
  show ?case by simp
next
  case (Cons c cs)
  from Cons.prems obtain x xs where old: "old = x # xs" by (cases old) auto
  with Cons.prems have "x \<noteq> c" by auto
  with old have "\<not> prefix old (c # cs)" by simp
  with Cons show ?case by simp
qed

lemma replace_from_no_match:
  "old \<noteq> [] \<Longrightarrow> \<not> Contains u old \<Longrightarrow> set old \<inter> set b = {} \<Longrightarrow>
   replace_from 0 old new (u @ b) = u @ b"
proof (induction u)
  case Nil
  then show ?case by (simp add: replace_from_disjoint)
next
  case (Cons c u)
  from Cons.prems have np: "\<not> prefix old (c # u)" and nc: "\<not> Contains u old" by simp_all
  have "\<not> prefix old ((c # u) @ b)"
  proof
    assume "prefix old ((c # u) @ b)"
    then consider "prefix old (c # u)" | us where "old = (c # u) @ us" "prefix us b"
      using prefix_append[of old "c # u" b] by auto
    then show False
    proof cases
      case 1
      with np show False by simp
    next
      case 2
      show False
      proof (cases us)
        case Nil
        with 2 np show False by simp
      next
        case (Cons y ys)
        with 2 have "y \<in> set old" "y \<in> set b" by (auto simp: prefix_def)
        with Cons.prems(3) show False by auto
      qed
    qed
  qed
  then show ?case using Cons.IH[OF Cons.prems(1) nc Cons.prems(3)] by simp
qed

lemma Replace_no_match: "old \<noteq> [] \<Longrightarrow> \<not> Contains s old \<Longrightarrow> Replace s old new = s"
  using replace_from_no_match[of old s "[]" new] by (simp add: Replace_def)

lemma replace_from_first:
  "old \<noteq> [] \<Longrightarrow> \<not> Contains (a @ butlast old) old \<Longrightarrow>
   replace_from 0 old new (a @ old @ b) = a @ new @ replace_from 0 old new b"
proof (induction a)
  case Nil
  then obtain x xs where old: "old = x # xs" by (cases old) auto
  have "replace_from 0 old new (old @ b) = new @ replace_from (length xs) old new (xs @ b)"
    by (simp add: old)
  then show ?case by (simp add: replace_from_skip)
next
  case (Cons c a)
  from Cons.prems(2) have np: "\<not> prefix old (c # a @ butlast old)"
    and nc: "\<not> Contains (a @ butlast old) old" by simp_all
  have "\<not> prefix old (c # a @ old @ b)"
  proof
    assume p: "prefix old (c # a @ old @ b)"
    have "c # a @ old @ b = (c # a @ butlast old) @ (last old # b)"
      using Cons.prems(1) by simp
    with p have "prefix old ((c # a @ butlast old) @ (last old # b))" by simp
    moreover have "length old \<le> length (c # a @ butlast old)" by simp
    ultimately have "prefix old (c # a @ butlast old)"
      by (metis prefix_length_prefix prefix_prefix prefix_order.order_refl)
    with np show False by simp
  qed
  then show ?case using Cons.IH[OF Cons.prems(1) nc] by simp
qed




lemma default_fragments:
  "map TrimSpace (ParseArbitraryStringSlice defaultMysqlRevocationStmts CHR '';'') =
   [revoke_template, drop_template]"
  unfolding revoke_template_def drop_template_def by code_simp

lemma Render_default: "Render f [defaultMysqlRevocationStmts] = [f revoke_template, f drop_template]"
proof -
  have "revoke_template \<noteq> []" "drop_template \<noteq> []"
    by (simp_all add: revoke_template_def drop_template_def)
  then show ?thesis by (simp add: Render_def default_fragments)
qed

lemma revoke_subst_templates:
  "\<not> Contains u ''{{username}}'' \<Longrightarrow>
   revoke_subst u revoke_template = revoke_of u \<and> revoke_subst u drop_template = drop_of u"
  by (simp add: revoke_subst_def Replace_def replace_from_no_match revoke_template_def
      drop_template_def revoke_of_def drop_of_def)

lemma first_pass_templates:
  "Replace revoke_template ''{{name}}'' u = revoke_of u \<and> Replace drop_template ''{{name}}'' u = drop_of u"
  by (simp add: Replace_def revoke_template_def drop_template_def revoke_of_def drop_of_def)

section \<open>Splitting and trimming\<close>














section \<open>Substituting in a statement of text and placeholders\<close>








section \<open>Atomicity of the lifecycle operations\<close>

text \<open>
  C1. Each of \<open>NewUser\<close>, \<open>UpdateUser\<close> with a password change and \<open>DeleteUser\<close>,
  once it has its connection and its transaction, is atomic over its rendered statement
  sequence. If a statement does not succeed, the commit is never called, the deferred
  rollback finds the handle live and discards the transaction before the operation
  returns without success, and no statement is durable or pending. If all statements
  succeed, the commit is called; with the commit succeeding the operation succeeds and
  all statements are durable. With the commit failing the operation does not succeed and
  nothing is durable; the handle is done by then, so the deferred rollback sends nothing,
  and the whole sequence, never a part of it, stays pending with the database. In every
  case the rollback is the last call before the lock is released.
\<close>

theorem lifecycle_atomic:
  assumes conn: "connection (producer m) = None" and beg: "begin_tx (producer m) = None"
  shows "(Commands (nu_Statements nreq) \<noteq> [] \<and> generateUsername m g nreq = Inr username \<longrightarrow>
          atomic_call (producer m) (prepared_ok (producer m)) w (NewUser m g nreq w)
            (Render (\<lambda>q. QueryHelper q (NewUser_queryMap username nreq)) (Commands (nu_Statements nreq))))
       \<and> (uu_Password ureq = Some pw \<and> uu_Username ureq \<noteq> [] \<and> NewPassword pw \<noteq> [] \<longrightarrow>
          atomic_call (producer m) (prepared_ok (producer m)) w (UpdateUser m ureq w)
            (Render (\<lambda>q. QueryHelper q (rotate_queryMap (uu_Username ureq) (NewPassword pw)))
               (if Commands (cp_Statements pw) = [] then [defaultMySQLRotateCredentialsSQL]
                else Commands (cp_Statements pw))))
       \<and> atomic_call (producer m) (direct_ok (producer m)) w (DeleteUser m dreq w)
            (Render (revoke_subst (du_Username dreq))
               (if Commands (du_Statements dreq) = [] then [defaultMysqlRevocationStmts]
                else Commands (du_Statements dreq)))"
proof (intro conjI impI)
  assume h: "Commands (nu_Statements nreq) \<noteq> [] \<and> generateUsername m g nreq = Inr username"
  let ?qm = "NewUser_queryMap username nreq"
  let ?ex = "executePreparedStatementsWithMap m (Commands (nu_Statements nreq)) ?qm w"
  have a: "atomic_call (producer m) (prepared_ok (producer m)) w ?ex
               (Render (\<lambda>q. QueryHelper q ?qm) (Commands (nu_Statements nreq)))"
    unfolding exec_as_run[OF conn beg] by (rule finish_atomic[OF step_ok_prepared])
  from h have s: "is_Ok (fst (NewUser m g nreq w)) = is_Ok (fst ?ex)" "snd (NewUser m g nreq w) = snd ?ex"
    using NewUser_as_exec[of nreq m g username w] by simp_all
  show "atomic_call (producer m) (prepared_ok (producer m)) w (NewUser m g nreq w)
               (Render (\<lambda>q. QueryHelper q ?qm) (Commands (nu_Statements nreq)))"
    using a unfolding atomic_call_cong[OF s] .
next
  assume h: "uu_Password ureq = Some pw \<and> uu_Username ureq \<noteq> [] \<and> NewPassword pw \<noteq> []"
  let ?qm = "rotate_queryMap (uu_Username ureq) (NewPassword pw)"
  let ?st = "if Commands (cp_Statements pw) = [] then [defaultMySQLRotateCredentialsSQL]
                else Commands (cp_Statements pw)"
  let ?ex = "executePreparedStatementsWithMap m ?st ?qm w"
  have a: "atomic_call (producer m) (prepared_ok (producer m)) w ?ex (Render (\<lambda>q. QueryHelper q ?qm) ?st)"
    unfolding exec_as_run[OF conn beg] by (rule finish_atomic[OF step_ok_prepared])
  from h have s: "is_Ok (fst (UpdateUser m ureq w)) = is_Ok (fst ?ex)" "snd (UpdateUser m ureq w) = snd ?ex"
    using UpdateUser_as_exec[of ureq pw m w] by simp_all
  show "atomic_call (producer m) (prepared_ok (producer m)) w (UpdateUser m ureq w)
               (Render (\<lambda>q. QueryHelper q ?qm) ?st)"
    using a unfolding atomic_call_cong[OF s] .
next
  show "atomic_call (producer m) (direct_ok (producer m)) w (DeleteUser m dreq w)
            (Render (revoke_subst (du_Username dreq))
               (if Commands (du_Statements dreq) = [] then [defaultMysqlRevocationStmts]
                else Commands (du_Statements dreq)))"
    unfolding delete_as_run[OF conn beg] by (rule finish_atomic[OF step_ok_direct])
qed

lemma all_succeed_accepting:
  "all_succeed (prepared_ok accepting) applied qs \<and> all_succeed (direct_ok accepting) applied qs"
  by (induction qs arbitrary: applied) (simp_all add: prepared_ok_def direct_ok_def accepting_def)

lemma all_succeed_failing_commit: "all_succeed (direct_ok (failing_commit err)) applied qs"
  by (induction qs arbitrary: applied) (simp_all add: direct_ok_def failing_commit_def)

theorem lifecycle_atomic_witness:
  "is_Ok (fst (NewUser sample_plugin sample_generator sample_new_user idle))
   \<and> durable (snd (NewUser sample_plugin sample_generator sample_new_user idle)) =
       Render (\<lambda>q. QueryHelper q (NewUser_queryMap ''tokenappk3x9'' sample_new_user))
         (Commands (nu_Statements sample_new_user))
   \<and> is_Ok (fst (UpdateUser sample_plugin sample_update idle))
   \<and> durable (snd (UpdateUser sample_plugin sample_update idle)) =
       Render (\<lambda>q. QueryHelper q (rotate_queryMap ''u1'' ''p1'')) [defaultMySQLRotateCredentialsSQL]
   \<and> is_Ok (fst (DeleteUser sample_plugin sample_delete idle))
   \<and> durable (snd (DeleteUser sample_plugin sample_delete idle)) =
       Render (revoke_subst ''u1'') [defaultMysqlRevocationStmts]
   \<and> pending (snd (DeleteUser sample_plugin sample_delete idle)) = None
   \<and> \<not> is_Ok (fst (DeleteUser \<lparr>legacy = False, producer = failing_commit (DriverError ''gone'')\<rparr>
                       sample_delete idle))
   \<and> durable (snd (DeleteUser \<lparr>legacy = False, producer = failing_commit (DriverError ''gone'')\<rparr>
                       sample_delete idle)) = []
   \<and> pending (snd (DeleteUser \<lparr>legacy = False, producer = failing_commit (DriverError ''gone'')\<rparr>
                       sample_delete idle)) =
       Some (Render (revoke_subst ''u1'') [defaultMysqlRevocationStmts])"
proof -
  have c: "connection (producer sample_plugin) = None" "begin_tx (producer sample_plugin) = None"
    by (simp_all add: sample_plugin_def accepting_def)
  have g: "generateUsername sample_plugin sample_generator sample_new_user = Inr ''tokenappk3x9''"
    by (simp add: generateUsername_def GenerateUsername_def sample_plugin_def sample_generator_def
        sample_new_user_def UsernameLen_def MetadataLen_def)
  have n: "Commands (nu_Statements sample_new_user) \<noteq> []"
    by (simp add: sample_new_user_def)
  have u: "uu_Password sample_update = Some \<lparr>NewPassword = ''p1'', cp_Statements = \<lparr>Commands = []\<rparr>\<rparr>"
      "uu_Username sample_update = ''u1''"
    by (simp_all add: sample_update_def)
  have d: "Commands (du_Statements sample_delete) = []" "du_Username sample_delete = ''u1''"
    by (simp_all add: sample_delete_def)
  have p: "producer sample_plugin = accepting" "commit accepting = (\<lambda>applied. None)" "durable idle = []"
    by (simp_all add: sample_plugin_def accepting_def idle_def)
  from lifecycle_atomic[OF c, where nreq = sample_new_user and g = sample_generator
      and username = "''tokenappk3x9''" and ureq = sample_update
      and pw = "\<lparr>NewPassword = ''p1'', cp_Statements = \<lparr>Commands = []\<rparr>\<rparr>"
      and w = idle and dreq = sample_delete]
  have a: "is_Ok (fst (NewUser sample_plugin sample_generator sample_new_user idle))
   \<and> durable (snd (NewUser sample_plugin sample_generator sample_new_user idle)) =
       Render (\<lambda>q. QueryHelper q (NewUser_queryMap ''tokenappk3x9'' sample_new_user))
         (Commands (nu_Statements sample_new_user))
   \<and> is_Ok (fst (UpdateUser sample_plugin sample_update idle))
   \<and> durable (snd (UpdateUser sample_plugin sample_update idle)) =
       Render (\<lambda>q. QueryHelper q (rotate_queryMap ''u1'' ''p1'')) [defaultMySQLRotateCredentialsSQL]
   \<and> is_Ok (fst (DeleteUser sample_plugin sample_delete idle))
   \<and> durable (snd (DeleteUser sample_plugin sample_delete idle)) =
       Render (revoke_subst ''u1'') [defaultMysqlRevocationStmts]
   \<and> pending (snd (DeleteUser sample_plugin sample_delete idle)) = None"
    using g n u d by (simp add: atomic_call_def all_succeed_accepting p)
  let ?m = "\<lparr>legacy = False, producer = failing_commit (DriverError ''gone'')\<rparr>"
  have c': "connection (producer ?m) = None" "begin_tx (producer ?m) = None"
    by (simp_all add: failing_commit_def)
  have p': "producer ?m = failing_commit (DriverError ''gone'')"
      "commit (failing_commit (DriverError ''gone'')) = (\<lambda>applied. Some (DriverError ''gone''))"
    by (simp_all add: failing_commit_def)
  from lifecycle_atomic[OF c', where w = idle and dreq = sample_delete, THEN conjunct2, THEN conjunct2]
  have b: "\<not> is_Ok (fst (DeleteUser ?m sample_delete idle))
   \<and> durable (snd (DeleteUser ?m sample_delete idle)) = []
   \<and> pending (snd (DeleteUser ?m sample_delete idle)) =
       Some (Render (revoke_subst ''u1'') [defaultMysqlRevocationStmts])"
    using d by (simp add: atomic_call_def all_succeed_failing_commit p' p(3))
  from a b show ?thesis by blast
qed

section \<open>Updates that change nothing on the database\<close>

text \<open>
  C7. An \<open>UpdateUser\<close> request that asks neither for a new password nor for a new
  expiration is refused with the error "no change requested", and the call does nothing
  else: no lock is taken, no connection is fetched and no transaction is opened, so the
  state after the call is the state before it.
\<close>

theorem UpdateUser_no_change:
  "uu_Password req = None \<Longrightarrow> uu_Expiration req = None \<Longrightarrow>
   UpdateUser m req w = (Err NoChangeRequested, w)"
  by (simp add: UpdateUser_def)

theorem UpdateUser_no_change_witness:
  "UpdateUser sample_plugin \<lparr>uu_Username = ''u1'', uu_Password = None, uu_Expiration = None\<rparr> idle
   = (Err NoChangeRequested, idle)"
  using UpdateUser_no_change[of "\<lparr>uu_Username = ''u1'', uu_Password = None, uu_Expiration = None\<rparr>"
      sample_plugin idle]
  by simp

text \<open>
  C8. An \<open>UpdateUser\<close> request that asks for a new expiration only succeeds, and the
  call makes no call on the database at all: the state after the call, the list of calls
  included, is the state before it.
\<close>

theorem UpdateUser_expiration_only:
  "uu_Password req = None \<Longrightarrow> uu_Expiration req = Some ce \<Longrightarrow> UpdateUser m req w = (Ok (), w)"
  by (simp add: UpdateUser_def)

theorem UpdateUser_expiration_only_witness:
  "UpdateUser sample_plugin
     \<lparr>uu_Username = ''u1'', uu_Password = None,
      uu_Expiration = Some \<lparr>NewExpiration = ''2030-01-01'', ce_Statements = \<lparr>Commands = []\<rparr>\<rparr>\<rparr> idle
   = (Ok (), idle)"
  using UpdateUser_expiration_only[of
      "\<lparr>uu_Username = ''u1'', uu_Password = None,
        uu_Expiration = Some \<lparr>NewExpiration = ''2030-01-01'', ce_Statements = \<lparr>Commands = []\<rparr>\<rparr>\<rparr>"
      "\<lparr>NewExpiration = ''2030-01-01'', ce_Statements = \<lparr>Commands = []\<rparr>\<rparr>" sample_plugin idle]
  by simp

section \<open>The way out for statements that cannot be prepared\<close>



text \<open>
  C3. The claim that \<open>Close\<close> is never called on a \<open>nil\<close> handle does not hold
  for the code: when the prepare fails with error 1295 and the direct execution fails
  too, the error path calls \<open>stmt.Close()\<close> on the \<open>nil\<close> handle the failed prepare
  returned. The operation panics there; the deferred rollback and unlock still run.
\<close>

theorem close_on_nil_handle:
  "executePreparedStatementsWithMap \<lparr>legacy = False, producer = broken_fallback\<rparr>
     [''CREATE USER x''] [] idle =
   (Panic, \<lparr>trace = [EvLock, EvGetConnection, EvBeginTx, EvPrepare ''CREATE USER x'',
                     EvExecDirect ''CREATE USER x'', EvClose None, EvRollback, EvUnlock],
            durable = [], pending = None\<rparr>)"
  by code_simp

section \<open>The error of a failing statement\<close>




section \<open>Creating a user without statements\<close>

text \<open>
  C4, as stated, asks \<open>NewUser\<close> to refuse every statement set without a non-empty
  statement. The code tests the length of the list of templates only: with templates that
  hold nothing but separators and white space the rendered sequence is empty, and yet
  \<open>NewUser\<close> generates a username, opens a transaction, commits it and succeeds.
\<close>

theorem NewUser_blank_statements_accepted:
  "Render (\<lambda>q. QueryHelper q (NewUser_queryMap ''tokenappk3x9'' blank_new_user))
     (Commands (nu_Statements blank_new_user)) = []
   \<and> NewUser sample_plugin sample_generator blank_new_user idle =
      (Ok \<lparr>resp_Username = ''tokenappk3x9''\<rparr>,
       \<lparr>trace = [EvLock, EvGetConnection, EvBeginTx, EvCommit, EvRollback, EvUnlock],
        durable = [], pending = None\<rparr>)"
  by code_simp

text \<open>
  C4, amended. A \<open>NewUser\<close> request whose list of templates is empty is refused with
  the error of an empty creation statement before a username is generated and before any
  call on the lock or the database: the state after the call is the state before it.
\<close>

theorem NewUser_no_statements:
  "Commands (nu_Statements req) = [] \<Longrightarrow> NewUser m g req w = (Err ErrEmptyCreationStatement, w)"
  by (simp add: NewUser_def)

theorem NewUser_no_statements_witness:
  "NewUser sample_plugin sample_generator (sample_new_user\<lparr>nu_Statements := \<lparr>Commands = []\<rparr>\<rparr>) idle
   = (Err ErrEmptyCreationStatement, idle)"
  using NewUser_no_statements[of "sample_new_user\<lparr>nu_Statements := \<lparr>Commands = []\<rparr>\<rparr>"
      sample_plugin sample_generator idle]
  by simp

section \<open>The default revocation statements\<close>

text \<open>
  C9, as stated, has every placeholder of the default template replaced by the target user
  name. The code replaces \<open>{{name}}\<close> first and then \<open>{{username}}\<close> in the result
  of the first replacement, so a user name that itself contains \<open>{{username}}\<close> is
  changed by the second replacement: for the user \<open>a{{username}}b\<close> the statements that
  are run and committed name the user \<open>aa{{username}}bb\<close>.
\<close>

theorem DeleteUser_placeholder_in_username:
  "fst (DeleteUser sample_plugin
          \<lparr>du_Username = ''a{{username}}b'', du_Statements = \<lparr>Commands = []\<rparr>\<rparr> idle) = Ok ()
   \<and> durable (snd (DeleteUser sample_plugin
          \<lparr>du_Username = ''a{{username}}b'', du_Statements = \<lparr>Commands = []\<rparr>\<rparr> idle)) =
       [''REVOKE ALL PRIVILEGES, GRANT OPTION FROM 'aa{{username}}bb'@'%'' @ [CHR 0x27],
        ''DROP USER 'aa{{username}}bb'@'%'' @ [CHR 0x27]]"
  by code_simp

text \<open>
  C9, amended. With an empty list of statements, \<open>DeleteUser\<close> runs the two statements of
  the built-in template, the \<open>REVOKE\<close> and then the \<open>DROP USER\<close>, each with
  \<open>{{name}}\<close> replaced by the user name and then \<open>{{username}}\<close> replaced by the
  user name in the result, and each run directly inside one transaction. The first
  replacement puts the user name into both statements; the second changes nothing when the
  user name does not itself contain \<open>{{username}}\<close>, and then the two statements are
  the template with the user name in the place of \<open>{{name}}\<close>. When the database
  accepts both statements and the commit, the operation succeeds, both statements are
  durable, and the calls made are exactly the lock, the connection, the start of the
  transaction, the two executions, the commit, the deferred rollback and the unlock. A
  statement with neither of the two placeholders is left as it is, whatever else it
  contains.
\<close>

theorem DeleteUser_default_statements:
  "(Commands (du_Statements req) = [] \<and> connection (producer m) = None \<and> begin_tx (producer m) = None
    \<longrightarrow> DeleteUser m req w =
        finish (producer m) (run_all (run_direct (producer m))
          [Replace (Replace revoke_template ''{{name}}'' (du_Username req)) ''{{username}}'' (du_Username req),
           Replace (Replace drop_template ''{{name}}'' (du_Username req)) ''{{username}}'' (du_Username req)]
          (opened w)))
 \<and> revoke_subst u revoke_template = Replace (revoke_of u) ''{{username}}'' u
 \<and> revoke_subst u drop_template = Replace (drop_of u) ''{{username}}'' u
 \<and> (\<not> Contains u ''{{username}}''
    \<longrightarrow> revoke_subst u revoke_template = revoke_of u
      \<and> revoke_subst u drop_template = drop_of u)
 \<and> (Commands (du_Statements req) = [] \<and> connection (producer m) = None \<and> begin_tx (producer m) = None
      \<and> exec_direct (producer m) (durable w) (revoke_subst (du_Username req) revoke_template) = None
      \<and> exec_direct (producer m) (durable w @ [revoke_subst (du_Username req) revoke_template])
            (revoke_subst (du_Username req) drop_template) = None
      \<and> commit (producer m) (durable w @ [revoke_subst (du_Username req) revoke_template,
            revoke_subst (du_Username req) drop_template]) = None
    \<longrightarrow> fst (DeleteUser m req w) = Ok ()
      \<and> durable (snd (DeleteUser m req w)) =
          durable w @ [revoke_subst (du_Username req) revoke_template,
                       revoke_subst (du_Username req) drop_template]
      \<and> calls w (snd (DeleteUser m req w)) =
          [EvLock, EvGetConnection, EvBeginTx,
           EvExecDirect (revoke_subst (du_Username req) revoke_template),
           EvExecDirect (revoke_subst (du_Username req) drop_template),
           EvCommit, EvRollback, EvUnlock])
 \<and> (\<not> Contains q ''{{name}}'' \<and> \<not> Contains q ''{{username}}''
    \<longrightarrow> Replace (Replace q ''{{name}}'' u) ''{{username}}'' u = q)"
proof (intro conjI impI; (elim conjE)?)
  assume e: "Commands (du_Statements req) = []" and conn: "connection (producer m) = None"
    and beg: "begin_tx (producer m) = None"
  show "DeleteUser m req w =
        finish (producer m) (run_all (run_direct (producer m))
          [Replace (Replace revoke_template ''{{name}}'' (du_Username req)) ''{{username}}'' (du_Username req),
           Replace (Replace drop_template ''{{name}}'' (du_Username req)) ''{{username}}'' (du_Username req)]
          (opened w))"
    unfolding delete_as_run[OF conn beg] using e by (simp add: Render_default revoke_subst_def)
next
  show "revoke_subst u revoke_template = Replace (revoke_of u) ''{{username}}'' u"
    by (simp add: revoke_subst_def first_pass_templates)
next
  show "revoke_subst u drop_template = Replace (drop_of u) ''{{username}}'' u"
    by (simp add: revoke_subst_def first_pass_templates)
next
  assume n: "\<not> Contains u ''{{username}}''"
  from revoke_subst_templates[OF n]
  show "revoke_subst u revoke_template = revoke_of u"
    and "revoke_subst u drop_template = drop_of u"
    by simp_all
next
  let ?q1 = "revoke_subst (du_Username req) revoke_template"
  let ?q2 = "revoke_subst (du_Username req) drop_template"
  assume e: "Commands (du_Statements req) = []" and conn: "connection (producer m) = None"
    and beg: "begin_tx (producer m) = None"
    and x1: "exec_direct (producer m) (durable w) ?q1 = None"
    and x2: "exec_direct (producer m) (durable w @ [?q1]) ?q2 = None"
    and c: "commit (producer m) (durable w @ [?q1, ?q2]) = None"
  have ex: "DeleteUser m req w =
      finish (producer m) (run_all (run_direct (producer m)) [?q1, ?q2] (opened w))"
    unfolding delete_as_run[OF conn beg] using e by (simp add: Render_default)
  have run: "finish (producer m) (run_all (run_direct (producer m)) [?q1, ?q2] (opened w)) =
      (Ok (), \<lparr>trace = trace w @ [EvLock, EvGetConnection, EvBeginTx, EvExecDirect ?q1,
                 EvExecDirect ?q2, EvCommit, EvRollback, EvUnlock],
               durable = durable w @ [?q1, ?q2], pending = None\<rparr>)"
    using x1 x2 c
    by (simp add: finish_def run_direct_def opened_def visible_def emit_def apply_query_def
        Commit_def Rollback_def Unlock_def)
  show "fst (DeleteUser m req w) = Ok ()"
    and "durable (snd (DeleteUser m req w)) = durable w @ [?q1, ?q2]"
    and "calls w (snd (DeleteUser m req w)) =
          [EvLock, EvGetConnection, EvBeginTx, EvExecDirect ?q1,
           EvExecDirect ?q2, EvCommit, EvRollback, EvUnlock]"
    unfolding ex run by (simp_all add: calls_def)
next
  assume "\<not> Contains q ''{{name}}''" and "\<not> Contains q ''{{username}}''"
  then show "Replace (Replace q ''{{name}}'' u) ''{{username}}'' u = q"
    by (simp add: Replace_no_match)
qed

theorem DeleteUser_default_statements_witness:
  "fst (DeleteUser sample_plugin sample_delete idle) = Ok ()
   \<and> durable (snd (DeleteUser sample_plugin sample_delete idle)) =
       [''REVOKE ALL PRIVILEGES, GRANT OPTION FROM 'u1'@'%'' @ [CHR 0x27],
        ''DROP USER 'u1'@'%'' @ [CHR 0x27]]
   \<and> calls idle (snd (DeleteUser sample_plugin sample_delete idle)) =
       [EvLock, EvGetConnection, EvBeginTx,
        EvExecDirect (''REVOKE ALL PRIVILEGES, GRANT OPTION FROM 'u1'@'%'' @ [CHR 0x27]),
        EvExecDirect (''DROP USER 'u1'@'%'' @ [CHR 0x27]), EvCommit, EvRollback, EvUnlock]
   \<and> Replace (Replace ''SET PASSWORD FOR x = '{{password}}';'' ''{{name}}'' ''u1'') ''{{username}}'' ''u1''
       = ''SET PASSWORD FOR x = '{{password}}';''"
proof -
  have h: "Commands (du_Statements sample_delete) = []" "du_Username sample_delete = ''u1''"
      "connection (producer sample_plugin) = None" "begin_tx (producer sample_plugin) = None"
      "\<And>applied q. exec_direct (producer sample_plugin) applied q = None"
      "\<And>applied. commit (producer sample_plugin) applied = None" "durable idle = []"
    by (simp_all add: sample_delete_def sample_plugin_def accepting_def idle_def)
  have n: "\<not> Contains ''u1'' ''{{username}}''" by simp
  have c: "\<not> Contains ''SET PASSWORD FOR x = '{{password}}';'' ''{{name}}''
         \<and> \<not> Contains ''SET PASSWORD FOR x = '{{password}}';'' ''{{username}}''"
    by simp
  have r: "revoke_of ''u1'' = ''REVOKE ALL PRIVILEGES, GRANT OPTION FROM 'u1'@'%'' @ [CHR 0x27]"
      "drop_of ''u1'' = ''DROP USER 'u1'@'%'' @ [CHR 0x27]"
    by (simp_all add: revoke_of_def drop_of_def)
  note t = DeleteUser_default_statements[where req = sample_delete and m = sample_plugin and w = idle
      and u = "''u1''" and q = "''SET PASSWORD FOR x = '{{password}}';''"]
  from t[THEN conjunct2, THEN conjunct2, THEN conjunct2, THEN conjunct1, THEN mp, OF n]
  have s: "revoke_subst ''u1'' revoke_template = revoke_of ''u1''"
      "revoke_subst ''u1'' drop_template = drop_of ''u1''"
    by simp_all
  have p5: "Commands (du_Statements sample_delete) = [] \<and> connection (producer sample_plugin) = None
      \<and> begin_tx (producer sample_plugin) = None
      \<and> exec_direct (producer sample_plugin) (durable idle)
            (revoke_subst (du_Username sample_delete) revoke_template) = None
      \<and> exec_direct (producer sample_plugin)
            (durable idle @ [revoke_subst (du_Username sample_delete) revoke_template])
            (revoke_subst (du_Username sample_delete) drop_template) = None
      \<and> commit (producer sample_plugin)
            (durable idle @ [revoke_subst (du_Username sample_delete) revoke_template,
               revoke_subst (du_Username sample_delete) drop_template]) = None"
    by (simp add: h)
  from t[THEN conjunct2, THEN conjunct2, THEN conjunct2, THEN conjunct2, THEN conjunct1, THEN mp, OF p5]
  have a: "fst (DeleteUser sample_plugin sample_delete idle) = Ok ()
      \<and> durable (snd (DeleteUser sample_plugin sample_delete idle)) = [revoke_of ''u1'', drop_of ''u1'']
      \<and> calls idle (snd (DeleteUser sample_plugin sample_delete idle)) =
          [EvLock, EvGetConnection, EvBeginTx, EvExecDirect (revoke_of ''u1''),
           EvExecDirect (drop_of ''u1''), EvCommit, EvRollback, EvUnlock]"
    by (simp add: h s)
  from t[THEN conjunct2, THEN conjunct2, THEN conjunct2, THEN conjunct2, THEN conjunct2, THEN mp, OF c]
  have b: "Replace (Replace ''SET PASSWORD FOR x = '{{password}}';'' ''{{name}}'' ''u1'') ''{{username}}'' ''u1''
       = ''SET PASSWORD FOR x = '{{password}}';''" .
  from a b show ?thesis unfolding r by blast
qed

section \<open>Rendering\<close>




end
